theory Spec2Isabelle
  imports Complex_Main
begin

section \<open>Numbers\<close>

text \<open>
  The program computes with two kinds of numbers. The constructor arguments
  (\<open>inductance\<close>, \<open>capacitance\<close>, \<open>step_size\<close>, ...) are Python scalars; the entries
  of the state history, and everything computed from them, are numpy scalars.
  Both are modelled in exact arithmetic: a finite value is a \<open>real\<close>, rounding and
  overflow are left out, and the arguments given by the caller are finite.

  The two kinds differ where a divisor is zero. Python's \<open>/\<close> on its own scalars
  raises \<open>ZeroDivisionError\<close>. numpy's \<open>/\<close> on a numpy scalar raises nothing: it
  returns \<open>inf\<close>, \<open>-inf\<close> or \<open>nan\<close> (and prints a warning). These three values
  are one constructor, \<open>NonFinite\<close>: every operation the program applies to one of
  them (negation, sum, difference, product, division by a Python scalar) gives one
  of them again, and the program never divides by a numpy scalar.
\<close>

datatype error = ZeroDivisionError | IndexError

datatype float64 = Finite real | NonFinite

fun neg64 :: "float64 \<Rightarrow> float64" where
  "neg64 (Finite x) = Finite (- x)"
| "neg64 NonFinite = NonFinite"

fun add64 :: "float64 \<Rightarrow> float64 \<Rightarrow> float64" where
  "add64 (Finite x) (Finite y) = Finite (x + y)"
| "add64 _ _ = NonFinite"

fun sub64 :: "float64 \<Rightarrow> float64 \<Rightarrow> float64" where
  "sub64 (Finite x) (Finite y) = Finite (x - y)"
| "sub64 _ _ = NonFinite"

fun mul64 :: "float64 \<Rightarrow> float64 \<Rightarrow> float64" where
  "mul64 (Finite x) (Finite y) = Finite (x * y)"
| "mul64 _ _ = NonFinite"

text \<open>A numpy scalar divided by a Python scalar.\<close>

fun div64 :: "float64 \<Rightarrow> real \<Rightarrow> float64" where
  "div64 (Finite x) d = (if d = 0 then NonFinite else Finite (x / d))"
| "div64 NonFinite d = NonFinite"

text \<open>A Python scalar divided by a Python scalar.\<close>

definition py_div :: "real \<Rightarrow> real \<Rightarrow> error + real" where
  "py_div x d = (if d = 0 then Inl ZeroDivisionError else Inr (x / d))"

section \<open>The model of the circuit (model.py)\<close>

text \<open>
  \<open>state\<close> is the two-column array of the history, one row per entry.
  \<open>solving_time\<close> is \<open>False\<close> until a solver has run (\<open>None\<close> here) and the
  elapsed wall-clock time afterwards.
\<close>

record LCOscillatorModel =
  inductance :: real
  capacitance :: real
  initial_current :: real
  initial_voltage :: real
  initial_state :: "float64 \<times> float64"
  state :: "(float64 \<times> float64) list"
  solving_time :: "real option"

definition LCOscillatorModel_init ::
  "real \<Rightarrow> real \<Rightarrow> real \<Rightarrow> real \<Rightarrow> LCOscillatorModel" where
  "LCOscillatorModel_init L C i0 v0 =
     \<lparr>inductance = L, capacitance = C, initial_current = i0, initial_voltage = v0,
      initial_state = (Finite i0, Finite v0),
      state = [(Finite i0, Finite v0)],
      solving_time = None\<rparr>"

definition add_new_state ::
  "LCOscillatorModel \<Rightarrow> float64 \<times> float64 \<Rightarrow> LCOscillatorModel" where
  "add_new_state m new_state_y =
     m\<lparr>state := state m @
          [(fst new_state_y, mul64 (Finite (- inductance m)) (snd new_state_y))]\<rparr>"

text \<open>\<open>self.state[-1]\<close> raises \<open>IndexError\<close> on an array without rows.\<close>

definition get_last_state :: "LCOscillatorModel \<Rightarrow> error + float64 \<times> float64" where
  "get_last_state m = (if state m = [] then Inl IndexError else Inr (last (state m)))"

definition get_last_state_y :: "LCOscillatorModel \<Rightarrow> error + float64 \<times> float64" where
  "get_last_state_y m =
     (if state m = [] then Inl IndexError
      else Inr (fst (last (state m)),
                div64 (neg64 (snd (last (state m)))) (inductance m)))"

definition last_equation_y :: "LCOscillatorModel \<Rightarrow> error + float64" where
  "last_equation_y m =
     (case get_last_state_y m of
        Inl e \<Rightarrow> Inl e
      | Inr last_state \<Rightarrow>
          Inr (div64 (neg64 (fst last_state)) (inductance m * capacitance m)))"

section \<open>The solvers (solver.py)\<close>


text \<open>
  The solver object. Its field \<open>model\<close> is a reference to the model object of the
  caller, which \<open>solve\<close> mutates: here \<open>solve\<close> takes the model and returns it
  updated. The three solver classes share this constructor.
\<close>

record SolverInterface =
  step_size :: real
  simulation_time :: real
  time_steps :: "real list"


text \<open>
  The loop \<open>for _ in self.time_steps: body\<close>: one run of the body per grid point,
  the grid point itself unused; an exception in the body ends the loop.
\<close>

fun for_each ::
  "'a list \<Rightarrow> (LCOscillatorModel \<Rightarrow> error + LCOscillatorModel) \<Rightarrow>
   LCOscillatorModel \<Rightarrow> error + LCOscillatorModel" where
  "for_each [] body m = Inr m"
| "for_each (t # ts) body m =
     (case body m of Inl e \<Rightarrow> Inl e | Inr m' \<Rightarrow> for_each ts body m')"

subsection \<open>SimpleEulerSolver\<close>

text \<open>The array \<open>new_state\<close> of one pass through the loop, then the pass itself.\<close>

definition euler_new_state ::
  "SolverInterface \<Rightarrow> LCOscillatorModel \<Rightarrow> error + float64 \<times> float64" where
  "euler_new_state s m =
     (case get_last_state_y m of
        Inl e \<Rightarrow> Inl e
      | Inr last_state \<Rightarrow>
          (case last_equation_y m of
             Inl e \<Rightarrow> Inl e
           | Inr f \<Rightarrow>
               Inr (add64 (fst last_state) (mul64 (snd last_state) (Finite (step_size s))),
                    add64 (snd last_state) (mul64 f (Finite (step_size s))))))"

definition euler_step ::
  "SolverInterface \<Rightarrow> LCOscillatorModel \<Rightarrow> error + LCOscillatorModel" where
  "euler_step s m =
     (case euler_new_state s m of
        Inl e \<Rightarrow> Inl e
      | Inr new_state \<Rightarrow> Inr (add_new_state m new_state))"

text \<open>
  \<open>elapsed\<close> is the difference of the two clock readings that bracket the loop.
\<close>

definition SimpleEulerSolver_solve ::
  "SolverInterface \<Rightarrow> real \<Rightarrow> LCOscillatorModel \<Rightarrow> error + LCOscillatorModel" where
  "SimpleEulerSolver_solve s elapsed m =
     (case for_each (time_steps s) (euler_step s) m of
        Inl e \<Rightarrow> Inl e
      | Inr m' \<Rightarrow> Inr (m'\<lparr>solving_time := Some elapsed\<rparr>))"

subsection \<open>BackwardEulerSolver\<close>

text \<open>
  The coefficients \<open>a\<close> and \<open>b\<close> are computed from Python scalars only, so each of
  the three divisions raises on a zero divisor.
\<close>

definition y_2_new_func ::
  "SolverInterface \<Rightarrow> LCOscillatorModel \<Rightarrow> float64 \<Rightarrow> float64 \<Rightarrow> error + float64" where
  "y_2_new_func s m y_1_old y_2_old =
     (case py_div ((step_size s)\<^sup>2) (inductance m * capacitance m) of
        Inl e \<Rightarrow> Inl e
      | Inr q \<Rightarrow>
          (case py_div 1 (1 + q) of
             Inl e \<Rightarrow> Inl e
           | Inr a \<Rightarrow>
               (case py_div (step_size s) (inductance m * capacitance m) of
                  Inl e \<Rightarrow> Inl e
                | Inr b \<Rightarrow>
                    Inr (sub64 (mul64 (Finite a) y_2_old) (mul64 (Finite b) y_1_old)))))"

definition backward_new_state ::
  "SolverInterface \<Rightarrow> LCOscillatorModel \<Rightarrow> error + float64 \<times> float64" where
  "backward_new_state s m =
     (case get_last_state_y m of
        Inl e \<Rightarrow> Inl e
      | Inr last_state \<Rightarrow>
          (case y_2_new_func s m (fst last_state) (snd last_state) of
             Inl e \<Rightarrow> Inl e
           | Inr y_2_new \<Rightarrow>
               Inr (add64 (fst last_state) (mul64 y_2_new (Finite (step_size s))),
                    y_2_new)))"

definition backward_step ::
  "SolverInterface \<Rightarrow> LCOscillatorModel \<Rightarrow> error + LCOscillatorModel" where
  "backward_step s m =
     (case backward_new_state s m of
        Inl e \<Rightarrow> Inl e
      | Inr new_state \<Rightarrow> Inr (add_new_state m new_state))"

definition BackwardEulerSolver_solve ::
  "SolverInterface \<Rightarrow> real \<Rightarrow> LCOscillatorModel \<Rightarrow> error + LCOscillatorModel" where
  "BackwardEulerSolver_solve s elapsed m =
     (case for_each (time_steps s) (backward_step s) m of
        Inl e \<Rightarrow> Inl e
      | Inr m' \<Rightarrow> Inr (m'\<lparr>solving_time := Some elapsed\<rparr>))"

subsection \<open>SimpleRungeKutta\<close>

definition y_new :: "SolverInterface \<Rightarrow> float64 \<Rightarrow> float64 \<Rightarrow> float64" where
  "y_new s y_old y_func =
     (let k_1 = y_func;
          k_2 = add64 y_func (div64 (mul64 (Finite (step_size s)) k_1) 2);
          k_3 = add64 y_func (div64 (mul64 (Finite (step_size s)) k_2) 2);
          k_4 = add64 y_func (mul64 (Finite (step_size s)) k_3);
          y_delta = div64 (mul64 (Finite (step_size s))
                      (add64 (add64 (add64 k_1 (mul64 (Finite 2) k_2))
                                    (mul64 (Finite 2) k_3)) k_4)) 6
      in add64 y_old y_delta)"

definition rk_new_state ::
  "SolverInterface \<Rightarrow> LCOscillatorModel \<Rightarrow> error + float64 \<times> float64" where
  "rk_new_state s m =
     (case get_last_state_y m of
        Inl e \<Rightarrow> Inl e
      | Inr last_state \<Rightarrow>
          Inr (y_new s (fst last_state) (snd last_state),
               y_new s (snd last_state)
                 (div64 (neg64 (fst last_state)) (inductance m * capacitance m))))"

definition rk_step ::
  "SolverInterface \<Rightarrow> LCOscillatorModel \<Rightarrow> error + LCOscillatorModel" where
  "rk_step s m =
     (case rk_new_state s m of
        Inl e \<Rightarrow> Inl e
      | Inr new_state \<Rightarrow> Inr (add_new_state m new_state))"

definition SimpleRungeKutta_solve ::
  "SolverInterface \<Rightarrow> real \<Rightarrow> LCOscillatorModel \<Rightarrow> error + LCOscillatorModel" where
  "SimpleRungeKutta_solve s elapsed m =
     (case for_each (time_steps s) (rk_step s) m of
        Inl e \<Rightarrow> Inl e
      | Inr m' \<Rightarrow> Inr (m'\<lparr>solving_time := Some elapsed\<rparr>))"

subsection \<open>The choice of solver\<close>

text \<open>
  \<open>Simulation\<close> is given one of the three solver classes and calls its \<open>solve\<close>:
  the class decides which loop body runs.
\<close>

datatype solver_class = SimpleEulerSolver | BackwardEulerSolver | SimpleRungeKutta

fun new_state ::
  "solver_class \<Rightarrow> SolverInterface \<Rightarrow> LCOscillatorModel \<Rightarrow> error + float64 \<times> float64" where
  "new_state SimpleEulerSolver = euler_new_state"
| "new_state BackwardEulerSolver = backward_new_state"
| "new_state SimpleRungeKutta = rk_new_state"

fun solve ::
  "solver_class \<Rightarrow> SolverInterface \<Rightarrow> real \<Rightarrow> LCOscillatorModel \<Rightarrow>
   error + LCOscillatorModel" where
  "solve SimpleEulerSolver = SimpleEulerSolver_solve"
| "solve BackwardEulerSolver = BackwardEulerSolver_solve"
| "solve SimpleRungeKutta = SimpleRungeKutta_solve"

section \<open>State model: appending and construction\<close>

text \<open>
  C5. \<open>add_new_state\<close> called with the natural pair \<open>(y0_new, y1_new)\<close> stores the
  pair \<open>(y0_new, -L * y1_new)\<close> as the new last row of the history. The history grows
  by exactly one row, the rows it had are the rows before the new one, and
  inductance, capacitance, the initial values and the solving time are unchanged.
\<close>

theorem add_new_state_appends:
  "state (add_new_state m (y0_new, y1_new)) =
     state m @ [(y0_new, mul64 (Finite (- inductance m)) y1_new)]
   \<and> last (state (add_new_state m (Finite a, Finite b)))
       = (Finite a, Finite (- inductance m * b))
   \<and> length (state (add_new_state m (y0_new, y1_new))) = length (state m) + 1
   \<and> take (length (state m)) (state (add_new_state m (y0_new, y1_new))) = state m
   \<and> inductance (add_new_state m (y0_new, y1_new)) = inductance m
   \<and> capacitance (add_new_state m (y0_new, y1_new)) = capacitance m
   \<and> initial_current (add_new_state m (y0_new, y1_new)) = initial_current m
   \<and> initial_voltage (add_new_state m (y0_new, y1_new)) = initial_voltage m
   \<and> initial_state (add_new_state m (y0_new, y1_new)) = initial_state m
   \<and> solving_time (add_new_state m (y0_new, y1_new)) = solving_time m"
  by (simp add: add_new_state_def)

text \<open>
  C8. The constructor checks nothing: for all four arguments, zero inductance or
  capacitance included, it returns the model with the arguments stored as given, a
  history of the one row \<open>(initial_current, initial_voltage)\<close> and no solving time.
  Its result type has no error: \<open>__init__\<close> has no \<open>raise\<close> and calls nothing that
  raises.
\<close>

theorem construction_checks_nothing:
  "inductance (LCOscillatorModel_init L C i0 v0) = L
   \<and> capacitance (LCOscillatorModel_init L C i0 v0) = C
   \<and> initial_current (LCOscillatorModel_init L C i0 v0) = i0
   \<and> initial_voltage (LCOscillatorModel_init L C i0 v0) = v0
   \<and> initial_state (LCOscillatorModel_init L C i0 v0) = (Finite i0, Finite v0)
   \<and> state (LCOscillatorModel_init L C i0 v0) = [(Finite i0, Finite v0)]
   \<and> solving_time (LCOscillatorModel_init L C i0 v0) = None"
  by (simp add: LCOscillatorModel_init_def)

text \<open>
  The claim of C8 as the specification has it, that a zero inductance or capacitance
  makes the construction fail, is false: with both zero the model is built.
\<close>

theorem construction_zero_parameters_counterexample:
  "LCOscillatorModel_init 0 0 2 3 =
     \<lparr>inductance = 0, capacitance = 0, initial_current = 2, initial_voltage = 3,
      initial_state = (Finite 2, Finite 3),
      state = [(Finite 2, Finite 3)],
      solving_time = None\<rparr>"
  by (simp add: LCOscillatorModel_init_def)

section \<open>Coordinates\<close>

lemma natural_of_stored:
  "L \<noteq> 0 \<Longrightarrow> div64 (neg64 (mul64 (Finite (- L)) y)) L = y"
  by (cases y) simp_all

lemma get_last_state_y_add_new_state:
  "inductance m \<noteq> 0 \<Longrightarrow> get_last_state_y (add_new_state m n) = Inr n"
  by (simp add: get_last_state_y_def add_new_state_def natural_of_stored)

lemma get_last_state_y_nonempty:
  "state m \<noteq> [] \<Longrightarrow>
   get_last_state_y m =
     Inr (fst (last (state m)), div64 (neg64 (snd (last (state m)))) (inductance m))"
  by (simp add: get_last_state_y_def)

text \<open>
  C10. On a model fresh from the constructor with \<open>L \<noteq> 0\<close>, \<open>get_last_state_y\<close>
  returns \<open>(i0, - v0 / L)\<close> and \<open>last_equation_y\<close> returns the quotient of \<open>- i0\<close> by
  \<open>L * C\<close> (the real number \<open>- i0 / (L * C)\<close> when \<open>C \<noteq> 0\<close> too). So the first pass
  of each solver's loop computes its new state from the second component
  \<open>- v0 / L\<close>, not from \<open>v0\<close>.
\<close>

theorem fresh_model_natural_state:
  assumes "L \<noteq> 0"
  shows "get_last_state_y (LCOscillatorModel_init L C i0 v0)
           = Inr (Finite i0, Finite (- v0 / L))
   \<and> last_equation_y (LCOscillatorModel_init L C i0 v0)
           = Inr (div64 (Finite (- i0)) (L * C))
   \<and> (C \<noteq> 0 \<longrightarrow> last_equation_y (LCOscillatorModel_init L C i0 v0)
                    = Inr (Finite (- i0 / (L * C))))
   \<and> euler_new_state s (LCOscillatorModel_init L C i0 v0)
           = Inr (Finite (i0 + (- v0 / L) * step_size s),
                  add64 (Finite (- v0 / L))
                    (mul64 (div64 (Finite (- i0)) (L * C)) (Finite (step_size s))))
   \<and> backward_new_state s (LCOscillatorModel_init L C i0 v0)
           = (case y_2_new_func s (LCOscillatorModel_init L C i0 v0)
                     (Finite i0) (Finite (- v0 / L)) of
                Inl e \<Rightarrow> Inl e
              | Inr y_2_new \<Rightarrow>
                  Inr (add64 (Finite i0) (mul64 y_2_new (Finite (step_size s))), y_2_new))
   \<and> rk_new_state s (LCOscillatorModel_init L C i0 v0)
           = Inr (y_new s (Finite i0) (Finite (- v0 / L)),
                  y_new s (Finite (- v0 / L)) (div64 (Finite (- i0)) (L * C)))"
  using assms
  by (simp add: get_last_state_y_def last_equation_y_def LCOscillatorModel_init_def
      euler_new_state_def backward_new_state_def rk_new_state_def split: sum.splits)

theorem fresh_model_natural_state_witness:
  "(2::real) \<noteq> 0
   \<and> get_last_state_y (LCOscillatorModel_init 2 1 0 1) = Inr (Finite 0, Finite (- (1 / 2)))
   \<and> last_equation_y (LCOscillatorModel_init 2 1 0 1) = Inr (Finite 0)
   \<and> euler_new_state \<lparr>step_size = 1 / 2, simulation_time = 1, time_steps = [0, 1 / 2]\<rparr>
        (LCOscillatorModel_init 2 1 0 1) = Inr (Finite (- (1 / 4)), Finite (- (1 / 2)))"
proof -
  have h: "(2::real) \<noteq> 0" by simp
  show ?thesis
    using h fresh_model_natural_state [OF h, of 1 0 1
        "\<lparr>step_size = 1 / 2, simulation_time = 1, time_steps = [0, 1 / 2]\<rparr>"]
    by simp
qed

text \<open>
  C7. A product \<open>inductance * capacitance\<close> of zero makes neither method of the
  model raise. Both divide a numpy scalar, so on a model with a history
  \<open>last_equation_y\<close> returns a non-finite number and \<open>get_last_state_y\<close> returns its
  pair, with a non-finite second component when the inductance is zero. The one
  division by zero that raises is in the backward Euler solver, whose coefficients
  are Python scalars.
\<close>

theorem zero_product_returns_nonfinite:
  assumes "inductance m * capacitance m = 0" and "state m \<noteq> []"
  shows "last_equation_y m = Inr NonFinite
   \<and> get_last_state_y m =
       Inr (fst (last (state m)), div64 (neg64 (snd (last (state m)))) (inductance m))
   \<and> (inductance m = 0 \<longrightarrow>
        get_last_state_y m = Inr (fst (last (state m)), NonFinite))
   \<and> y_2_new_func s m y_1_old y_2_old = Inl ZeroDivisionError"
proof -
  have nonfinite: "div64 y 0 = NonFinite" for y
    by (cases y) simp_all
  have a: "last_equation_y m = Inr NonFinite"
    using assms(2) by (simp add: last_equation_y_def get_last_state_y_def assms(1) nonfinite)
  have b: "get_last_state_y m =
       Inr (fst (last (state m)), div64 (neg64 (snd (last (state m)))) (inductance m))"
    using assms(2) by (rule get_last_state_y_nonempty)
  have c: "inductance m = 0 \<longrightarrow>
        get_last_state_y m = Inr (fst (last (state m)), NonFinite)"
    using b by (simp add: nonfinite)
  have d: "y_2_new_func s m y_1_old y_2_old = Inl ZeroDivisionError"
    by (simp add: y_2_new_func_def py_div_def assms(1))
  from a b c d show ?thesis by blast
qed

theorem zero_product_returns_nonfinite_witness:
  "inductance (LCOscillatorModel_init 0 1 2 3) * capacitance (LCOscillatorModel_init 0 1 2 3) = 0
   \<and> state (LCOscillatorModel_init 0 1 2 3) = [(Finite 2, Finite 3)]
   \<and> last_equation_y (LCOscillatorModel_init 0 1 2 3) = Inr NonFinite
   \<and> get_last_state_y (LCOscillatorModel_init 0 1 2 3) = Inr (Finite 2, NonFinite)"
proof -
  have h1: "inductance (LCOscillatorModel_init 0 1 2 3)
            * capacitance (LCOscillatorModel_init 0 1 2 3) = 0"
    by (simp add: LCOscillatorModel_init_def)
  have h2: "state (LCOscillatorModel_init 0 1 2 3) \<noteq> []"
    by (simp add: LCOscillatorModel_init_def)
  show ?thesis
    using h1 zero_product_returns_nonfinite [OF h1 h2]
    by (simp add: LCOscillatorModel_init_def)
qed

text \<open>
  The claim of C7 as the specification has it, that both methods signal a division
  by zero instead of returning, is false: with zero inductance both return.
\<close>

theorem zero_inductance_returns_counterexample:
  "get_last_state_y (LCOscillatorModel_init 0 1 2 3) = Inr (Finite 2, NonFinite)
   \<and> last_equation_y (LCOscillatorModel_init 0 1 2 3) = Inr NonFinite"
  by (simp add: get_last_state_y_def last_equation_y_def LCOscillatorModel_init_def)

section \<open>One pass of each solver's loop\<close>

text \<open>
  C4. In a pass of the explicit Euler loop, with \<open>(y0, y1)\<close> the natural state that
  \<open>get_last_state_y\<close> returns, the derivative term is \<open>f = - y0 / (L * C)\<close> and the
  pass appends the natural state \<open>(y0 + y1 * dt, y1 + f * dt)\<close>, both components
  from the old \<open>y0\<close> and \<open>y1\<close>: that pair goes to \<open>add_new_state\<close>, and with
  \<open>L \<noteq> 0\<close> it is what \<open>get_last_state_y\<close> returns afterwards. For finite
  \<open>y0 = p\<close>, \<open>y1 = q\<close> and \<open>L * C \<noteq> 0\<close> these are the real numbers
  \<open>p + q * dt\<close> and \<open>q + (- p / (L * C)) * dt\<close>.
\<close>

theorem euler_step_formula:
  assumes "get_last_state_y m = Inr (y0, y1)"
  shows "last_equation_y m = Inr (div64 (neg64 y0) (inductance m * capacitance m))
   \<and> euler_new_state s m =
       Inr (add64 y0 (mul64 y1 (Finite (step_size s))),
            add64 y1 (mul64 (div64 (neg64 y0) (inductance m * capacitance m))
                            (Finite (step_size s))))
   \<and> euler_step s m =
       Inr (add_new_state m
             (add64 y0 (mul64 y1 (Finite (step_size s))),
              add64 y1 (mul64 (div64 (neg64 y0) (inductance m * capacitance m))
                              (Finite (step_size s)))))
   \<and> (inductance m \<noteq> 0 \<longrightarrow>
        get_last_state_y (projr (euler_step s m)) =
          Inr (add64 y0 (mul64 y1 (Finite (step_size s))),
               add64 y1 (mul64 (div64 (neg64 y0) (inductance m * capacitance m))
                               (Finite (step_size s)))))
   \<and> (\<forall>p q. y0 = Finite p \<and> y1 = Finite q \<and> inductance m * capacitance m \<noteq> 0 \<longrightarrow>
        euler_new_state s m =
          Inr (Finite (p + q * step_size s),
               Finite (q + (- p / (inductance m * capacitance m)) * step_size s)))"
  using assms
  by (auto simp: euler_new_state_def euler_step_def last_equation_y_def
      get_last_state_y_add_new_state)

theorem euler_step_formula_witness:
  "get_last_state_y (LCOscillatorModel_init 2 1 0 1) = Inr (Finite 0, Finite (- (1 / 2)))
   \<and> euler_step \<lparr>step_size = 1 / 2, simulation_time = 1, time_steps = [0, 1 / 2]\<rparr>
        (LCOscillatorModel_init 2 1 0 1) =
       Inr (add_new_state (LCOscillatorModel_init 2 1 0 1)
              (Finite (- (1 / 4)), Finite (- (1 / 2))))
   \<and> state (add_new_state (LCOscillatorModel_init 2 1 0 1)
              (Finite (- (1 / 4)), Finite (- (1 / 2))))
       = [(Finite 0, Finite 1), (Finite (- (1 / 4)), Finite 1)]"
proof -
  have h: "get_last_state_y (LCOscillatorModel_init 2 1 0 1)
             = Inr (Finite 0, Finite (- (1 / 2)))"
    by (simp add: get_last_state_y_def LCOscillatorModel_init_def)
  have i: "inductance (LCOscillatorModel_init 2 1 0 1) = 2"
    "capacitance (LCOscillatorModel_init 2 1 0 1) = 1"
    by (simp_all add: LCOscillatorModel_init_def)
  show ?thesis
    using h euler_step_formula [OF h,
        of "\<lparr>step_size = 1 / 2, simulation_time = 1, time_steps = [0, 1 / 2]\<rparr>"]
    by (simp add: i add_new_state_def) (simp add: LCOscillatorModel_init_def)
qed

text \<open>
  C2. In a pass of the backward Euler loop, with \<open>(y0_old, y1_old)\<close> the natural state
  that \<open>get_last_state_y\<close> returns and with divisors \<open>L * C\<close> and
  \<open>1 + dt\<^sup>2 / (L * C)\<close> that are not zero, the pass computes
  \<open>y1_new = a * y1_old - b * y0_old\<close> with \<open>a = 1 / (1 + dt\<^sup>2 / (L * C))\<close> and
  \<open>b = dt / (L * C)\<close>, then \<open>y0_new = y0_old + y1_new * dt\<close> from the new \<open>y1_new\<close>,
  and appends the natural state \<open>(y0_new, y1_new)\<close>: that pair goes to
  \<open>add_new_state\<close> and is what \<open>get_last_state_y\<close> returns afterwards.
\<close>

theorem backward_step_formula:
  assumes "get_last_state_y m = Inr (y0_old, y1_old)"
    and "inductance m * capacitance m \<noteq> 0"
    and "1 + (step_size s)\<^sup>2 / (inductance m * capacitance m) \<noteq> 0"
  shows "(let a = 1 / (1 + (step_size s)\<^sup>2 / (inductance m * capacitance m));
              b = step_size s / (inductance m * capacitance m);
              y1_new = sub64 (mul64 (Finite a) y1_old) (mul64 (Finite b) y0_old);
              y0_new = add64 y0_old (mul64 y1_new (Finite (step_size s)))
          in y_2_new_func s m y0_old y1_old = Inr y1_new
           \<and> backward_new_state s m = Inr (y0_new, y1_new)
           \<and> backward_step s m = Inr (add_new_state m (y0_new, y1_new))
           \<and> get_last_state_y (projr (backward_step s m)) = Inr (y0_new, y1_new))"
proof -
  from assms(2) have L: "inductance m \<noteq> 0" by auto
  show ?thesis
    using assms
    by (simp add: backward_new_state_def backward_step_def y_2_new_func_def py_div_def
        get_last_state_y_add_new_state[OF L] Let_def)
qed

theorem backward_step_formula_witness:
  "get_last_state_y (LCOscillatorModel_init 2 1 0 1) = Inr (Finite 0, Finite (- (1 / 2)))
   \<and> backward_new_state \<lparr>step_size = 1 / 2, simulation_time = 1, time_steps = [0, 1 / 2]\<rparr>
        (LCOscillatorModel_init 2 1 0 1) = Inr (Finite (- (2 / 9)), Finite (- (4 / 9)))
   \<and> backward_step \<lparr>step_size = 1 / 2, simulation_time = 1, time_steps = [0, 1 / 2]\<rparr>
        (LCOscillatorModel_init 2 1 0 1) =
       Inr (add_new_state (LCOscillatorModel_init 2 1 0 1)
              (Finite (- (2 / 9)), Finite (- (4 / 9))))"
proof -
  let ?m = "LCOscillatorModel_init 2 1 0 1"
  let ?s = "\<lparr>step_size = 1 / 2, simulation_time = 1, time_steps = [0, 1 / 2]\<rparr>"
  have i: "inductance ?m = 2" "capacitance ?m = 1"
    by (simp_all add: LCOscillatorModel_init_def)
  have h1: "get_last_state_y ?m = Inr (Finite 0, Finite (- (1 / 2)))"
    by (simp add: get_last_state_y_def LCOscillatorModel_init_def)
  have h2: "inductance ?m * capacitance ?m \<noteq> 0"
    by (simp add: i)
  have h3: "1 + (step_size ?s)\<^sup>2 / (inductance ?m * capacitance ?m) \<noteq> 0"
    by (simp add: i power2_eq_square)
  show ?thesis
    using h1 backward_step_formula [OF h1 h2 h3]
    by (simp add: i power2_eq_square Let_def)
qed

text \<open>
  C3. In a pass of the Runge-Kutta loop, with \<open>(y0_old, y1_old)\<close> the natural state
  that \<open>get_last_state_y\<close> returns, each coordinate is updated by \<open>y_new\<close> with the
  other coordinate's old value held fixed: \<open>y0\<close> with \<open>y1_old\<close>, and \<open>y1\<close> with
  \<open>f = - y0_old / (L * C)\<close>. \<open>y_new\<close> is the four-stage rule: for an old value \<open>y\<close>
  and a held value \<open>g\<close>, \<open>k1 = g\<close>, \<open>k2 = g + dt * k1 / 2\<close>, \<open>k3 = g + dt * k2 / 2\<close>,
  \<open>k4 = g + dt * k3\<close>, and the result is \<open>y + dt * (k1 + 2 * k2 + 2 * k3 + k4) / 6\<close>.
  The pair of the two results goes to \<open>add_new_state\<close>, and with \<open>L \<noteq> 0\<close> it is
  what \<open>get_last_state_y\<close> returns afterwards.
\<close>

theorem rk_step_formula:
  assumes "get_last_state_y m = Inr (y0_old, y1_old)"
  shows "rk_new_state s m =
      Inr (y_new s y0_old y1_old,
           y_new s y1_old (div64 (neg64 y0_old) (inductance m * capacitance m)))
   \<and> rk_step s m =
      Inr (add_new_state m
        (y_new s y0_old y1_old,
         y_new s y1_old (div64 (neg64 y0_old) (inductance m * capacitance m))))
   \<and> (inductance m \<noteq> 0 \<longrightarrow>
        get_last_state_y (projr (rk_step s m)) =
          Inr (y_new s y0_old y1_old,
               y_new s y1_old (div64 (neg64 y0_old) (inductance m * capacitance m))))
   \<and> (\<forall>y g. y_new s (Finite y) (Finite g) =
         (let k1 = g;
              k2 = g + step_size s * k1 / 2;
              k3 = g + step_size s * k2 / 2;
              k4 = g + step_size s * k3
          in Finite (y + step_size s * (k1 + 2 * k2 + 2 * k3 + k4) / 6)))
   \<and> (\<forall>p q. y0_old = Finite p \<and> y1_old = Finite q
              \<and> inductance m * capacitance m \<noteq> 0 \<longrightarrow>
         rk_new_state s m =
           Inr (y_new s (Finite p) (Finite q),
                y_new s (Finite q) (Finite (- p / (inductance m * capacitance m)))))"
  using assms
  by (auto simp: rk_new_state_def rk_step_def y_new_def Let_def
      get_last_state_y_add_new_state)

theorem rk_step_formula_witness:
  "get_last_state_y (LCOscillatorModel_init 2 1 0 1) = Inr (Finite 0, Finite (- (1 / 2)))
   \<and> rk_new_state \<lparr>step_size = 1 / 2, simulation_time = 1, time_steps = [0, 1 / 2]\<rparr>
        (LCOscillatorModel_init 2 1 0 1) = Inr (Finite (- (83 / 256)), Finite (- (1 / 2)))
   \<and> rk_step \<lparr>step_size = 1 / 2, simulation_time = 1, time_steps = [0, 1 / 2]\<rparr>
        (LCOscillatorModel_init 2 1 0 1) =
       Inr (add_new_state (LCOscillatorModel_init 2 1 0 1)
              (Finite (- (83 / 256)), Finite (- (1 / 2))))"
proof -
  let ?m = "LCOscillatorModel_init 2 1 0 1"
  let ?s = "\<lparr>step_size = 1 / 2, simulation_time = 1, time_steps = [0, 1 / 2]\<rparr>"
  have i: "inductance ?m = 2" "capacitance ?m = 1"
    by (simp_all add: LCOscillatorModel_init_def)
  have h: "get_last_state_y ?m = Inr (Finite 0, Finite (- (1 / 2)))"
    by (simp add: get_last_state_y_def LCOscillatorModel_init_def)
  have v: "y_new ?s (Finite 0) (Finite (- (1 / 2))) = Finite (- (83 / 256))"
    "y_new ?s (Finite (- (1 / 2))) (Finite 0) = Finite (- (1 / 2))"
    by (simp_all add: y_new_def Let_def)
  show ?thesis
    using h rk_step_formula [OF h, of ?s]
    by (simp add: i v)
qed

section \<open>The loop\<close>

text \<open>
  Each solver's loop body computes a new natural state from the model and appends
  it. The lemmas of this section hold for every body of that form.
\<close>

lemma for_each_trace:
  assumes body: "\<And>m. body m =
      (case new m of Inl e \<Rightarrow> Inl e | Inr n \<Rightarrow> Inr (add_new_state m n))"
  shows "for_each ts body m = Inr m' \<Longrightarrow>
    \<exists>app. length app = length ts \<and> m' = m\<lparr>state := state m @ app\<rparr> \<and>
      (\<forall>j<length ts. \<exists>n. new (m\<lparr>state := state m @ take j app\<rparr>) = Inr n \<and>
           app ! j = (fst n, mul64 (Finite (- inductance m)) (snd n)))"
proof (induction ts arbitrary: m)
  case Nil
  then show ?case by simp
next
  case (Cons t ts)
  from Cons.prems obtain m1 where b1: "body m = Inr m1"
    and rest1: "for_each ts body m1 = Inr m'"
    by (auto split: sum.splits)
  from b1 body[of m] obtain n0 where n0: "new m = Inr n0"
    and m1_def: "m1 = add_new_state m n0"
    by (auto split: sum.splits)
  from rest1 m1_def have rest: "for_each ts body (add_new_state m n0) = Inr m'"
    by simp
  let ?e = "(fst n0, mul64 (Finite (- inductance m)) (snd n0))"
  let ?m1 = "add_new_state m n0"
  have m1: "?m1 = m\<lparr>state := state m @ [?e]\<rparr>"
    by (simp add: add_new_state_def)
  from Cons.IH[OF rest] obtain app1 where
    len: "length app1 = length ts" and
    m': "m' = ?m1\<lparr>state := state ?m1 @ app1\<rparr>" and
    tr: "\<forall>j<length ts. \<exists>n. new (?m1\<lparr>state := state ?m1 @ take j app1\<rparr>) = Inr n \<and>
           app1 ! j = (fst n, mul64 (Finite (- inductance ?m1)) (snd n))"
    by blast
  have "\<exists>n. new (m\<lparr>state := state m @ take j (?e # app1)\<rparr>) = Inr n \<and>
           (?e # app1) ! j = (fst n, mul64 (Finite (- inductance m)) (snd n))"
    if "j < length (t # ts)" for j
  proof (cases j)
    case 0
    then show ?thesis using n0 by simp
  next
    case (Suc j')
    with that have "j' < length ts" by simp
    with tr obtain n where "new (?m1\<lparr>state := state ?m1 @ take j' app1\<rparr>) = Inr n"
      "app1 ! j' = (fst n, mul64 (Finite (- inductance ?m1)) (snd n))" by blast
    then show ?thesis using Suc by (simp add: m1)
  qed
  moreover have "length (?e # app1) = length (t # ts)" using len by simp
  moreover have "m' = m\<lparr>state := state m @ (?e # app1)\<rparr>" using m' by (simp add: m1)
  ultimately show ?case by blast
qed

lemma for_each_total:
  assumes body: "\<And>m. body m =
      (case new m of Inl e \<Rightarrow> Inl e | Inr n \<Rightarrow> Inr (add_new_state m n))"
    and new: "\<And>m. state m \<noteq> [] \<Longrightarrow> P m \<Longrightarrow> \<exists>n. new m = Inr n"
    and P: "\<And>m n. P m \<Longrightarrow> P (add_new_state m n)"
  shows "state m \<noteq> [] \<Longrightarrow> P m \<Longrightarrow> \<exists>m'. for_each ts body m = Inr m'"
proof (induction ts arbitrary: m)
  case Nil
  then show ?case by simp
next
  case (Cons t ts)
  from new[OF Cons.prems] obtain n where n: "new m = Inr n" by blast
  have "state (add_new_state m n) \<noteq> []" by (simp add: add_new_state_def)
  from Cons.IH[OF this P[OF Cons.prems(2)]] obtain m' where
    "for_each ts body (add_new_state m n) = Inr m'" by blast
  moreover have "body m = Inr (add_new_state m n)" using body[of m] n by simp
  ultimately show ?case by simp
qed

lemma for_each_invariant:
  assumes step: "\<And>m m'. I m \<Longrightarrow> body m = Inr m' \<Longrightarrow> I m'"
  shows "I m \<Longrightarrow> for_each ts body m = Inr m' \<Longrightarrow> I m'"
proof (induction ts arbitrary: m)
  case Nil
  then show ?case by simp
next
  case (Cons t ts)
  from Cons.prems(2) obtain m1 where b1: "body m = Inr m1"
    and rest: "for_each ts body m1 = Inr m'"
    by (auto split: sum.splits)
  from step[OF Cons.prems(1) b1] have "I m1" .
  from Cons.IH[OF this rest] show ?case .
qed

lemma for_each_length:
  assumes body: "\<And>m. body m =
      (case new m of Inl e \<Rightarrow> Inl e | Inr n \<Rightarrow> Inr (add_new_state m n))"
    and run: "for_each ts body m = Inr m'"
  shows "length (state m') = length (state m) + length ts"
proof -
  from for_each_trace[of body new, OF body run] obtain app where
    "length app = length ts" "m' = m\<lparr>state := state m @ app\<rparr>" by blast
  then show ?thesis by simp
qed

subsection \<open>The three bodies\<close>

lemma new_state_total:
  assumes "state m \<noteq> []"
    and "cls = BackwardEulerSolver \<Longrightarrow>
           inductance m * capacitance m \<noteq> 0
           \<and> 1 + (step_size s)\<^sup>2 / (inductance m * capacitance m) \<noteq> 0"
  shows "\<exists>n. new_state cls s m = Inr n"
proof (cases cls)
  case SimpleEulerSolver
  then show ?thesis using assms(1)
    by (simp add: euler_new_state_def last_equation_y_def get_last_state_y_def)
next
  case BackwardEulerSolver
  with assms show ?thesis
    by (simp add: backward_new_state_def y_2_new_func_def py_div_def get_last_state_y_def)
next
  case SimpleRungeKutta
  then show ?thesis using assms(1)
    by (simp add: rk_new_state_def get_last_state_y_def)
qed

text \<open>The loop of \<open>solve\<close>, for any of the three classes.\<close>

lemma solve_loop:
  "\<exists>body. (\<forall>m. body m =
       (case new_state cls s m of Inl e \<Rightarrow> Inl e | Inr n \<Rightarrow> Inr (add_new_state m n)))
     \<and> (\<forall>elapsed m. solve cls s elapsed m =
       (case for_each (time_steps s) body m of
          Inl e \<Rightarrow> Inl e
        | Inr m' \<Rightarrow> Inr (m'\<lparr>solving_time := Some elapsed\<rparr>)))"
proof (cases cls)
  case SimpleEulerSolver
  then show ?thesis
    by (intro exI[of _ "euler_step s"])
      (simp add: euler_step_def SimpleEulerSolver_solve_def)
next
  case BackwardEulerSolver
  then show ?thesis
    by (intro exI[of _ "backward_step s"])
      (simp add: backward_step_def BackwardEulerSolver_solve_def)
next
  case SimpleRungeKutta
  then show ?thesis
    by (intro exI[of _ "rk_step s"])
      (simp add: rk_step_def SimpleRungeKutta_solve_def)
qed

lemma solve_total:
  assumes "state m \<noteq> []"
    and "cls = BackwardEulerSolver \<Longrightarrow>
           inductance m * capacitance m \<noteq> 0
           \<and> 1 + (step_size s)\<^sup>2 / (inductance m * capacitance m) \<noteq> 0"
  shows "\<exists>m'. solve cls s elapsed m = Inr m'"
proof -
  from solve_loop[of cls s] obtain body where
    body: "\<And>m. body m =
       (case new_state cls s m of Inl e \<Rightarrow> Inl e | Inr n \<Rightarrow> Inr (add_new_state m n))"
    and sol: "\<And>elapsed m. solve cls s elapsed m =
       (case for_each (time_steps s) body m of
          Inl e \<Rightarrow> Inl e
        | Inr m' \<Rightarrow> Inr (m'\<lparr>solving_time := Some elapsed\<rparr>))"
    by blast
  let ?P = "\<lambda>m'. inductance m' = inductance m \<and> capacitance m' = capacitance m"
  have "\<exists>m'. for_each (time_steps s) body m = Inr m'"
  proof (rule for_each_total[of body "new_state cls s" ?P])
    show "body m = (case new_state cls s m of Inl e \<Rightarrow> Inl e
                    | Inr n \<Rightarrow> Inr (add_new_state m n))" for m
      by (rule body)
    show "\<exists>n. new_state cls s m1 = Inr n" if "state m1 \<noteq> []" "?P m1" for m1
      using that assms(2) by (intro new_state_total) simp_all
    show "?P (add_new_state m1 n)" if "?P m1" for m1 n
      using that by (simp add: add_new_state_def)
    show "state m \<noteq> []" by (rule assms(1))
    show "?P m" by simp
  qed
  then show ?thesis by (auto simp: sol)
qed

lemma solve_length:
  assumes "solve cls s elapsed m = Inr m'"
  shows "length (state m') = length (state m) + length (time_steps s)"
proof -
  from solve_loop[of cls s] obtain body where
    body: "\<And>m. body m =
       (case new_state cls s m of Inl e \<Rightarrow> Inl e | Inr n \<Rightarrow> Inr (add_new_state m n))"
    and sol: "\<And>elapsed m. solve cls s elapsed m =
       (case for_each (time_steps s) body m of
          Inl e \<Rightarrow> Inl e
        | Inr m' \<Rightarrow> Inr (m'\<lparr>solving_time := Some elapsed\<rparr>))"
    by blast
  from assms obtain m1 where run: "for_each (time_steps s) body m = Inr m1"
    and m': "m' = m1\<lparr>solving_time := Some elapsed\<rparr>"
    by (auto simp: sol split: sum.splits)
  from for_each_length[of body "new_state cls s", OF body run] m'
  show ?thesis by simp
qed

section \<open>The time grid and the length of the history\<close>





section \<open>The history after a run\<close>

text \<open>
  C6. After \<open>solve\<close> of any of the three classes on a model fresh from the
  constructor, row 0 of the history is the pair \<open>(initial_current, initial_voltage)\<close>
  as given, with no transform. Every row \<open>k \<ge> 1\<close> is in stored coordinates: it is
  the new natural state \<open>n\<close> that the solver computed in pass \<open>k\<close> of its loop, from
  the model with the first \<open>k\<close> rows, with the second component multiplied by \<open>- L\<close>.
\<close>

theorem history_coordinates:
  assumes "solve cls s elapsed (LCOscillatorModel_init L C i0 v0) = Inr m'"
  shows "state m' ! 0 = (Finite i0, Finite v0)
    \<and> length (state m') = length (time_steps s) + 1
    \<and> (\<forall>k. 1 \<le> k \<and> k < length (state m') \<longrightarrow>
         (\<exists>n. new_state cls s
                  ((LCOscillatorModel_init L C i0 v0)\<lparr>state := take k (state m')\<rparr>) = Inr n
              \<and> state m' ! k = (fst n, mul64 (Finite (- L)) (snd n))))"
proof -
  let ?m = "LCOscillatorModel_init L C i0 v0"
  have st: "state ?m = [(Finite i0, Finite v0)]" "inductance ?m = L"
    by (simp_all add: LCOscillatorModel_init_def)
  from solve_loop[of cls s] obtain body where
    body: "\<And>m. body m =
       (case new_state cls s m of Inl e \<Rightarrow> Inl e | Inr n \<Rightarrow> Inr (add_new_state m n))"
    and sol: "\<And>elapsed m. solve cls s elapsed m =
       (case for_each (time_steps s) body m of
          Inl e \<Rightarrow> Inl e
        | Inr m' \<Rightarrow> Inr (m'\<lparr>solving_time := Some elapsed\<rparr>))"
    by blast
  from assms obtain m1 where run: "for_each (time_steps s) body ?m = Inr m1"
    and m': "m' = m1\<lparr>solving_time := Some elapsed\<rparr>"
    by (auto simp: sol split: sum.splits)
  from for_each_trace[of body "new_state cls s", OF body run] obtain app where
    len: "length app = length (time_steps s)" and
    m1: "m1 = ?m\<lparr>state := state ?m @ app\<rparr>" and
    tr: "\<forall>j<length (time_steps s).
          \<exists>n. new_state cls s (?m\<lparr>state := state ?m @ take j app\<rparr>) = Inr n \<and>
             app ! j = (fst n, mul64 (Finite (- inductance ?m)) (snd n))"
    by blast
  have hist: "state m' = (Finite i0, Finite v0) # app"
    using m' m1 by (simp add: st)
  have "\<exists>n. new_state cls s (?m\<lparr>state := take k (state m')\<rparr>) = Inr n
              \<and> state m' ! k = (fst n, mul64 (Finite (- L)) (snd n))"
    if k: "1 \<le> k" "k < length (state m')" for k
  proof -
    from k obtain j where j: "k = Suc j" by (cases k) simp_all
    with k have "j < length (time_steps s)" by (simp add: hist len)
    with tr obtain n where
      "new_state cls s (?m\<lparr>state := state ?m @ take j app\<rparr>) = Inr n"
      "app ! j = (fst n, mul64 (Finite (- inductance ?m)) (snd n))"
      by blast
    then show ?thesis by (simp add: j hist st)
  qed
  then show ?thesis by (simp add: hist len)
qed

theorem history_coordinates_witness:
  "solve BackwardEulerSolver \<lparr>step_size = 1 / 2, simulation_time = 1, time_steps = [0, 1 / 2]\<rparr>
      0 (LCOscillatorModel_init 2 1 0 1) =
     Inr \<lparr>inductance = 2, capacitance = 1, initial_current = 0, initial_voltage = 1,
          initial_state = (Finite 0, Finite 1),
          state = [(Finite 0, Finite 1), (Finite (- (2 / 9)), Finite (8 / 9)),
                   (Finite (- (127 / 324)), Finite (55 / 81))],
          solving_time = Some 0\<rparr>
   \<and> new_state BackwardEulerSolver
        \<lparr>step_size = 1 / 2, simulation_time = 1, time_steps = [0, 1 / 2]\<rparr>
        ((LCOscillatorModel_init 2 1 0 1)\<lparr>state := [(Finite 0, Finite 1)]\<rparr>)
       = Inr (Finite (- (2 / 9)), Finite (- (4 / 9)))
   \<and> (Finite (- (2 / 9)), Finite (8 / 9)) =
       (Finite (- (2 / 9)), mul64 (Finite (- 2)) (Finite (- (4 / 9))))"
proof -
  let ?s = "\<lparr>step_size = 1 / 2, simulation_time = 1, time_steps = [0, 1 / 2]\<rparr>"
  let ?m' = "\<lparr>inductance = 2, capacitance = 1, initial_current = 0, initial_voltage = 1,
          initial_state = (Finite 0, Finite 1),
          state = [(Finite 0, Finite 1), (Finite (- (2 / 9)), Finite (8 / 9)),
                   (Finite (- (127 / 324)), Finite (55 / 81))],
          solving_time = Some 0\<rparr>"
  have h: "solve BackwardEulerSolver ?s 0 (LCOscillatorModel_init 2 1 0 1) = Inr ?m'"
    by (simp add: BackwardEulerSolver_solve_def backward_step_def backward_new_state_def
        y_2_new_func_def py_div_def get_last_state_y_def add_new_state_def
        LCOscillatorModel_init_def power2_eq_square)
  have k: "1 \<le> (1::nat) \<and> (1::nat) < length (state ?m')" by simp
  note all = history_coordinates [OF h, THEN conjunct2, THEN conjunct2]
  have "\<exists>n. new_state BackwardEulerSolver ?s
            ((LCOscillatorModel_init 2 1 0 1)\<lparr>state := take 1 (state ?m')\<rparr>) = Inr n
        \<and> state ?m' ! 1 = (fst n, mul64 (Finite (- 2)) (snd n))"
    by (rule mp [OF spec [OF all] k])
  then obtain n where
    n: "new_state BackwardEulerSolver ?s
            ((LCOscillatorModel_init 2 1 0 1)\<lparr>state := [(Finite 0, Finite 1)]\<rparr>) = Inr n"
    and e: "(Finite (- (2 / 9)), Finite (8 / 9)) = (fst n, mul64 (Finite (- 2)) (snd n))"
    by auto
  have v: "new_state BackwardEulerSolver ?s
            ((LCOscillatorModel_init 2 1 0 1)\<lparr>state := [(Finite 0, Finite 1)]\<rparr>)
          = Inr (Finite (- (2 / 9)), Finite (- (4 / 9)))"
    by (simp add: backward_new_state_def y_2_new_func_def py_div_def get_last_state_y_def
        LCOscillatorModel_init_def power2_eq_square)
  from n v have nv: "n = (Finite (- (2 / 9)), Finite (- (4 / 9)))" by simp
  have e': "(Finite (- (2 / 9)), Finite (8 / 9)) =
       (Finite (- (2 / 9)), mul64 (Finite (- 2)) (Finite (- (4 / 9))))"
    using e unfolding nv by (simp only: fst_conv snd_conv)
  from h v e' show ?thesis by blast
qed

section \<open>The zero state\<close>

lemma zero_new_state:
  assumes "inductance m \<noteq> 0" and "capacitance m \<noteq> 0"
    and "state m \<noteq> []" and "last (state m) = (Finite 0, Finite 0)"
    and "new_state cls s m = Inr n"
  shows "n = (Finite 0, Finite 0)"
proof -
  from assms(1-4) have nat: "get_last_state_y m = Inr (Finite 0, Finite 0)"
    by (simp add: get_last_state_y_def)
  show ?thesis
  proof (cases cls)
    case SimpleEulerSolver
    with assms(1,2,5) nat show ?thesis
      by (auto simp: euler_new_state_def last_equation_y_def)
  next
    case BackwardEulerSolver
    with assms(5) nat show ?thesis
      by (auto simp: backward_new_state_def y_2_new_func_def split: sum.splits)
  next
    case SimpleRungeKutta
    with assms(1,2,5) nat show ?thesis
      by (auto simp: rk_new_state_def y_new_def Let_def)
  qed
qed

text \<open>
  C9. With nonzero \<open>L\<close> and \<open>C\<close> the zero state is a fixed point of a pass of each
  solver's loop: from a model whose last row is the zero pair, the new natural state
  the solver computes is the zero pair. So on a model constructed with
  \<open>initial_current = 0\<close> and \<open>initial_voltage = 0\<close>, whenever \<open>solve\<close> returns, every
  row of the history is the zero pair. \<open>solve\<close> does return: always for the explicit
  Euler and the Runge-Kutta solver, and for the backward Euler solver when its
  divisor \<open>1 + dt\<^sup>2 / (L * C)\<close> is not zero.
\<close>

theorem zero_state_fixed_point:
  assumes "L \<noteq> 0" and "C \<noteq> 0"
  shows "(inductance m = L \<and> capacitance m = C \<and> state m \<noteq> []
           \<and> last (state m) = (Finite 0, Finite 0) \<and> new_state cls s m = Inr n
          \<longrightarrow> n = (Finite 0, Finite 0))
    \<and> (\<forall>m'. solve cls s elapsed (LCOscillatorModel_init L C 0 0) = Inr m' \<longrightarrow>
          state m' = replicate (length (time_steps s) + 1) (Finite 0, Finite 0))
    \<and> ((cls = BackwardEulerSolver \<longrightarrow> 1 + (step_size s)\<^sup>2 / (L * C) \<noteq> 0) \<longrightarrow>
          (\<exists>m'. solve cls s elapsed (LCOscillatorModel_init L C 0 0) = Inr m'))"
proof -
  let ?z = "(Finite 0 :: float64, Finite 0 :: float64)"
  let ?m0 = "LCOscillatorModel_init L C 0 0"
  let ?I = "\<lambda>m. inductance m = L \<and> capacitance m = C \<and> state m \<noteq> []
                \<and> (\<forall>e \<in> set (state m). e = ?z)"
  have st: "state ?m0 = [?z]" "inductance ?m0 = L" "capacitance ?m0 = C"
    by (simp_all add: LCOscillatorModel_init_def)
  have step: "inductance m = L \<and> capacitance m = C \<and> state m \<noteq> []
           \<and> last (state m) = ?z \<and> new_state cls s m = Inr n \<longrightarrow> n = ?z"
    using assms zero_new_state[of m cls s n] by blast
  from solve_loop[of cls s] obtain body where
    body: "\<And>m. body m =
       (case new_state cls s m of Inl e \<Rightarrow> Inl e | Inr n \<Rightarrow> Inr (add_new_state m n))"
    and sol: "\<And>elapsed m. solve cls s elapsed m =
       (case for_each (time_steps s) body m of
          Inl e \<Rightarrow> Inl e
        | Inr m' \<Rightarrow> Inr (m'\<lparr>solving_time := Some elapsed\<rparr>))"
    by blast
  have pres: "?I m2" if I: "?I m1" and b: "body m1 = Inr m2" for m1 m2
  proof -
    from b body[of m1] obtain n1 where n1: "new_state cls s m1 = Inr n1"
      and m2: "m2 = add_new_state m1 n1"
      by (auto split: sum.splits)
    from I have "last (state m1) = ?z" by simp
    with I n1 assms have "n1 = ?z"
      by (intro zero_new_state[of m1 cls s n1]) simp_all
    with I m2 show ?thesis by (simp add: add_new_state_def)
  qed
  have all: "state m' = replicate (length (time_steps s) + 1) ?z"
    if run: "solve cls s elapsed ?m0 = Inr m'" for m'
  proof -
    from run obtain m1 where r1: "for_each (time_steps s) body ?m0 = Inr m1"
      and m': "m' = m1\<lparr>solving_time := Some elapsed\<rparr>"
      by (auto simp: sol split: sum.splits)
    have "?I ?m0" by (simp add: st)
    from for_each_invariant[of ?I body, OF pres this r1] have "?I m1" by simp
    with m' have zs: "\<forall>e \<in> set (state m'). e = ?z" by simp
    from solve_length[OF run] have "length (state m') = length (time_steps s) + 1"
      by (simp add: st)
    with zs show ?thesis
      by (metis replicate_length_same)
  qed
  have ret: "\<exists>m'. solve cls s elapsed ?m0 = Inr m'"
    if "cls = BackwardEulerSolver \<longrightarrow> 1 + (step_size s)\<^sup>2 / (L * C) \<noteq> 0"
    using that assms by (intro solve_total) (simp_all add: st)
  from step all ret show ?thesis by blast
qed

theorem zero_state_fixed_point_witness:
  "(2::real) \<noteq> 0 \<and> (1::real) \<noteq> 0
   \<and> state (projr (solve SimpleRungeKutta
        \<lparr>step_size = 1 / 2, simulation_time = 1, time_steps = [0, 1 / 2]\<rparr>
        0 (LCOscillatorModel_init 2 1 0 0)))
       = [(Finite 0, Finite 0), (Finite 0, Finite 0), (Finite 0, Finite 0)]"
proof -
  let ?s = "\<lparr>step_size = 1 / 2, simulation_time = 1, time_steps = [0, 1 / 2]\<rparr>"
  have h1: "(2::real) \<noteq> 0" by simp
  have h2: "(1::real) \<noteq> 0" by simp
  note fp = zero_state_fixed_point [OF h1 h2, where cls = SimpleRungeKutta and s = ?s
      and elapsed = 0]
  have c: "SimpleRungeKutta = BackwardEulerSolver \<longrightarrow>
             1 + (step_size ?s)\<^sup>2 / (2 * 1) \<noteq> 0"
    by simp
  from fp c obtain m' where
    m': "solve SimpleRungeKutta ?s 0 (LCOscillatorModel_init 2 1 0 0) = Inr m'"
    by blast
  with fp have "state m' = replicate (length (time_steps ?s) + 1) (Finite 0, Finite 0)"
    by blast
  then have "state m' = [(Finite 0, Finite 0), (Finite 0, Finite 0), (Finite 0, Finite 0)]"
    by simp
  with m' h1 h2 show ?thesis by simp
qed

end
